theory Spec2Isabelle
  imports Complex_Main
begin

section \<open>The transcription adapter \<^verbatim>\<open>backend/scripts/transcribe.py\<close>\<close>

text \<open>
  The script is one function, \<^verbatim>\<open>transcribe(audio_path, language)\<close>, and a
  \<^verbatim>\<open>__main__\<close> block. Both speech backends (faster-whisper, the primary one, and
  openai-whisper, the secondary one), the torch probe, the environment and the file
  system are collaborators the script only calls. They are gathered in a record
  \<open>world\<close>: each field says what the collaborator does when the script calls it,
  as a function of the arguments the script passes. Every call the script makes to a
  speech backend is written to a log, so that "the secondary backend is never
  invoked" is a statement about the log.
\<close>

subsection \<open>Python values\<close>

text \<open>
  A Python \<^verbatim>\<open>str\<close> is a \<open>string\<close>; one \<open>char\<close> stands for one code point
  (those below 256, which is what \<open>char\<close> holds), it is not a byte of an encoding.

  An exception is kept as the class the script's handlers tell apart and the text
  \<^verbatim>\<open>str(e)\<close>. The handlers are \<^verbatim>\<open>except ImportError\<close>, \<^verbatim>\<open>except Exception\<close>
  and a bare \<^verbatim>\<open>except:\<close>, so three classes are enough:
  \<open>ImportError\<close> (with its subclass ModuleNotFoundError), \<open>Exception\<close> (every
  other subclass of Exception) and \<open>BaseException\<close> (KeyboardInterrupt, SystemExit
  and GeneratorExit, which are outside Exception).
\<close>

datatype exc_class = ImportError | Exception | BaseException

datatype pyexc = PyExc (exc_class: exc_class) (exc_str: string)

definition isinstance_ImportError :: "pyexc \<Rightarrow> bool" where
  "isinstance_ImportError e = (exc_class e = ImportError)"

definition isinstance_Exception :: "pyexc \<Rightarrow> bool" where
  "isinstance_Exception e = (exc_class e \<noteq> BaseException)"

text \<open>
  The values the script puts into its result dictionaries: \<^verbatim>\<open>True\<close>/\<^verbatim>\<open>False\<close>,
  strings, and the float \<^verbatim>\<open>info.duration\<close>. The script never computes with the
  float, it only hands it on, so the float type is a parameter \<open>'f\<close>.
  A dictionary literal is an association list: it keeps the order of the keys, which
  is the order \<^verbatim>\<open>json.dumps\<close> prints them in.
\<close>

datatype 'f pyval = PyBool bool | PyStr string | PyFloat 'f

type_synonym 'f pydict = "(string \<times> 'f pyval) list"

subsection \<open>\<^verbatim>\<open>str.strip()\<close> and \<^verbatim>\<open>str.join\<close>\<close>

text \<open>
  \<^verbatim>\<open>str.strip()\<close> without argument removes the leading and trailing characters for
  which \<^verbatim>\<open>str.isspace()\<close> holds. Below code point 256 these are U+0009 to U+000D,
  U+001C to U+0020, U+0085 and U+00A0.
\<close>

definition isspace :: "char \<Rightarrow> bool" where
  "isspace c =
     (let n = (of_char c :: nat)
      in (9 \<le> n \<and> n \<le> 13) \<or> (28 \<le> n \<and> n \<le> 32) \<or> n = 133 \<or> n = 160)"

definition lstrip :: "string \<Rightarrow> string" where
  "lstrip s = dropWhile isspace s"

definition rstrip :: "string \<Rightarrow> string" where
  "rstrip s = rev (dropWhile isspace (rev s))"

definition strip :: "string \<Rightarrow> string" where
  "strip s = rstrip (lstrip s)"

text \<open>\<^verbatim>\<open>sep.join(parts)\<close>: the parts in order, \<open>sep\<close> between two neighbours.\<close>

fun join :: "string \<Rightarrow> string list \<Rightarrow> string" where
  "join sep [] = []"
| "join sep [x] = x"
| "join sep (x # y # ys) = x @ sep @ join sep (y # ys)"

subsection \<open>The collaborators\<close>

text \<open>
  A segment of faster-whisper has several attributes; the script reads \<^verbatim>\<open>.text\<close>
  only. \<^verbatim>\<open>info\<close> is read for \<^verbatim>\<open>.language\<close> and \<^verbatim>\<open>.duration\<close>.
\<close>

record segment =
  seg_text :: string

record 'f transcription_info =
  info_language :: "string option"
  info_duration :: 'f

text \<open>
  \<^verbatim>\<open>model.transcribe\<close> of faster-whisper returns a generator: the segments are
  decoded while the \<^verbatim>\<open>for\<close> loop asks for them, so the generator may raise after
  having yielded some. A generator over an audio file is finite: it yields, and ends
  with StopIteration (\<open>Stop\<close>) or with an exception (\<open>Raise\<close>).
\<close>

datatype 'a generator = Yield 'a "'a generator" | Stop | Raise pyexc

fun yielded :: "'a generator \<Rightarrow> 'a list" where
  "yielded (Yield x g) = x # yielded g"
| "yielded Stop = []"
| "yielded (Raise e) = []"

fun raised :: "'a generator \<Rightarrow> pyexc option" where
  "raised (Yield x g) = raised g"
| "raised Stop = None"
| "raised (Raise e) = Some e"

text \<open>
  A \<^verbatim>\<open>WhisperModel\<close> object is known by the arguments it was constructed with.
\<close>

record whisper_model =
  m_model_size :: string
  m_device :: string
  m_compute_type :: string

text \<open>
  The dictionary openai-whisper returns: the script reads \<^verbatim>\<open>result["text"]\<close> and
  \<^verbatim>\<open>result.get("language", language)\<close>; \<open>None\<close> in \<open>r_language\<close> is a
  dictionary without the key.
\<close>

record whisper_result =
  r_text :: string
  r_language :: "string option"

text \<open>
  For an import, \<open>None\<close> is an import that succeeds and \<open>Some e\<close> one that raises
  \<open>e\<close>; the same for the two constructors. A call that returns a value has a sum
  type, \<open>Inl e\<close> when it raises \<open>e\<close>.
\<close>

record 'f world =
  import_faster_whisper :: "pyexc option"
  environ_WHISPER_MODEL :: "string option"
  import_torch :: "pyexc option"
  mps_is_available :: "pyexc + bool"
  WhisperModel :: "string \<Rightarrow> string \<Rightarrow> string \<Rightarrow> pyexc option"
  model_transcribe ::
    "whisper_model \<Rightarrow> string \<Rightarrow> string option \<Rightarrow> nat \<Rightarrow> bool \<Rightarrow> bool
       \<Rightarrow> pyexc + (segment generator \<times> 'f transcription_info)"
  import_whisper :: "pyexc option"
  load_model :: "string \<Rightarrow> pyexc option"
  whisper_transcribe :: "string \<Rightarrow> string \<Rightarrow> string \<Rightarrow> pyexc + whisper_result"
  path_exists :: "string \<Rightarrow> bool"

text \<open>
  The log of the calls to the speech backends, with the arguments of each call:
  \<open>Call_WhisperModel model_size device compute_type\<close>,
  \<open>Call_model_transcribe audio_path language beam_size word_timestamps vad_filter\<close>,
  \<open>Call_load_model name\<close> and \<open>Call_whisper_transcribe audio_path language\<close>.
\<close>

datatype call =
    Import_faster_whisper
  | Call_WhisperModel string string string
  | Call_model_transcribe string "string option" nat bool bool
  | Import_whisper
  | Call_load_model string
  | Call_whisper_transcribe string string

fun secondary_call :: "call \<Rightarrow> bool" where
  "secondary_call Import_whisper = True"
| "secondary_call (Call_load_model n) = True"
| "secondary_call (Call_whisper_transcribe p l) = True"
| "secondary_call c = False"

subsection \<open>\<^verbatim>\<open>transcribe\<close>\<close>

text \<open>
  \<^verbatim>\<open>os.environ.get(name, default)\<close>, given what the environment holds for the
  name (\<open>None\<close> when the variable is unset).
\<close>

definition environ_get :: "string option \<Rightarrow> string \<Rightarrow> string" where
  "environ_get var dflt = (case var of Some v \<Rightarrow> v | None \<Rightarrow> dflt)"

text \<open>
  Lines 21 to 32: the device and the compute type, and the probe for Metal. The
  bare \<^verbatim>\<open>except:\<close> catches whatever the import or the probe raises.
\<close>

definition probe_mps :: "'f world \<Rightarrow> string \<times> string" where
  "probe_mps w =
     (let device = ''cpu''; compute_type = ''int8''
      in case import_torch w of
           Some e \<Rightarrow> (device, compute_type)
         | None \<Rightarrow>
             (case mps_is_available w of
                Inl e \<Rightarrow> (device, compute_type)
              | Inr available \<Rightarrow>
                  if available then (''cpu'', ''int8'') else (device, compute_type)))"

text \<open>
  Lines 45 to 47: the \<^verbatim>\<open>for\<close> loop over the generator, \<open>text_parts\<close> the list
  it appends to.
\<close>

fun collect :: "segment generator \<Rightarrow> string list \<Rightarrow> pyexc + string list" where
  "collect (Yield segment rest) text_parts =
     collect rest (text_parts @ [strip (seg_text segment)])"
| "collect Stop text_parts = Inr text_parts"
| "collect (Raise e) text_parts = Inl e"

text \<open>
  Lines 15 to 56, the body of the outer \<^verbatim>\<open>try\<close>: it returns the log of its calls
  and either the exception that leaves the body or the dictionary it returns.
\<close>

definition faster_whisper_body ::
  "'f world \<Rightarrow> string \<Rightarrow> string \<Rightarrow> call list \<times> (pyexc + 'f pydict)" where
  "faster_whisper_body w audio_path language =
     (case import_faster_whisper w of
        Some e \<Rightarrow> ([Import_faster_whisper], Inl e)
      | None \<Rightarrow>
          (let model_size = environ_get (environ_WHISPER_MODEL w) ''base'';
               (device, compute_type) = probe_mps w;
               log1 = [Import_faster_whisper, Call_WhisperModel model_size device compute_type]
           in case WhisperModel w model_size device compute_type of
                Some e \<Rightarrow> (log1, Inl e)
              | None \<Rightarrow>
                  (let model = \<lparr>m_model_size = model_size, m_device = device,
                                m_compute_type = compute_type\<rparr>;
                       hint = (if language \<noteq> [] then Some language else None);
                       log2 = log1 @ [Call_model_transcribe audio_path hint 5 False True]
                   in case model_transcribe w model audio_path hint 5 False True of
                        Inl e \<Rightarrow> (log2, Inl e)
                      | Inr (segments, info) \<Rightarrow>
                          (case collect segments [] of
                             Inl e \<Rightarrow> (log2, Inl e)
                           | Inr text_parts \<Rightarrow>
                               (let full_text = join '' '' text_parts
                                in (log2, Inr
                                     [(''success'', PyBool True),
                                      (''text'', PyStr full_text),
                                      (''language'', PyStr
                                         (case info_language info of
                                            Some l \<Rightarrow> if l \<noteq> [] then l else language
                                          | None \<Rightarrow> language)),
                                      (''duration'', PyFloat (info_duration info))]))))))"

text \<open>Lines 61 to 70, the body of the \<^verbatim>\<open>try\<close> inside \<^verbatim>\<open>except ImportError\<close>.\<close>

definition whisper_body ::
  "'f world \<Rightarrow> string \<Rightarrow> string \<Rightarrow> call list \<times> (pyexc + 'f pydict)" where
  "whisper_body w audio_path language =
     (case import_whisper w of
        Some e \<Rightarrow> ([Import_whisper], Inl e)
      | None \<Rightarrow>
          (case load_model w ''base'' of
             Some e \<Rightarrow> ([Import_whisper, Call_load_model ''base''], Inl e)
           | None \<Rightarrow>
               (let lg = [Import_whisper, Call_load_model ''base'',
                           Call_whisper_transcribe audio_path language]
                in case whisper_transcribe w ''base'' audio_path language of
                     Inl e \<Rightarrow> (lg, Inl e)
                   | Inr result \<Rightarrow>
                       (lg, Inr
                          [(''success'', PyBool True),
                           (''text'', PyStr (strip (r_text result))),
                           (''language'', PyStr
                              (case r_language result of
                                 Some l \<Rightarrow> l
                               | None \<Rightarrow> language))]))))"

text \<open>
  Lines 12 to 83. An exception that leaves the outer body goes to the first handler
  whose class it belongs to: \<^verbatim>\<open>except ImportError\<close> (line 58), then
  \<^verbatim>\<open>except Exception\<close> (line 78); one that belongs to neither leaves
  \<^verbatim>\<open>transcribe\<close>. An exception raised inside the first handler is caught by the
  handler's own \<^verbatim>\<open>except Exception\<close> (line 71) or leaves \<^verbatim>\<open>transcribe\<close>.
\<close>

definition transcribe ::
  "'f world \<Rightarrow> string \<Rightarrow> string \<Rightarrow> call list \<times> (pyexc + 'f pydict)" where
  "transcribe w audio_path language =
     (case faster_whisper_body w audio_path language of
        (lg, Inr d) \<Rightarrow> (lg, Inr d)
      | (lg, Inl e) \<Rightarrow>
          if isinstance_ImportError e then
            (case whisper_body w audio_path language of
               (lg', Inr d) \<Rightarrow> (lg @ lg', Inr d)
             | (lg', Inl e') \<Rightarrow>
                 if isinstance_Exception e' then
                   (lg @ lg', Inr
                      [(''success'', PyBool False),
                       (''error'', PyStr (''Whisper not available: '' @ exc_str e')),
                       (''text'', PyStr '''')])
                 else (lg @ lg', Inl e'))
          else if isinstance_Exception e then
            (lg, Inr
               [(''success'', PyBool False),
                (''error'', PyStr (exc_str e)),
                (''text'', PyStr '''')])
          else (lg, Inl e))"

subsection \<open>The \<^verbatim>\<open>__main__\<close> block\<close>

text \<open>
  A run of the process: the log of backend calls, the lines printed on standard
  output, and how the process ended. Each \<^verbatim>\<open>print(json.dumps(d))\<close> writes one line,
  the dictionary \<open>d\<close> as a JSON object; the line is kept as the dictionary.
  The process ends with an exit status (\<^verbatim>\<open>sys.exit(1)\<close>, or 0 at the end of the
  script) or with an exception nobody caught.
\<close>

datatype ending = Exit nat | Uncaught pyexc

record 'f run =
  calls :: "call list"
  stdout :: "'f pydict list"
  ended :: ending

text \<open>Lines 86 to 99; \<open>argv\<close> is \<^verbatim>\<open>sys.argv\<close>, the program name first.\<close>

definition main :: "'f world \<Rightarrow> string list \<Rightarrow> 'f run" where
  "main w argv =
     (if length argv < 2 then
        \<lparr>calls = [],
         stdout = [[(''success'', PyBool False),
                    (''error'', PyStr ''Usage: transcribe.py <audio_file> [language]'')]],
         ended = Exit 1\<rparr>
      else
        (let audio_file = argv ! 1;
             language = (if length argv > 2 then argv ! 2 else ''en'')
         in if \<not> path_exists w audio_file then
              \<lparr>calls = [],
               stdout = [[(''success'', PyBool False),
                          (''error'', PyStr (''File not found: '' @ audio_file))]],
               ended = Exit 1\<rparr>
            else
              (case transcribe w audio_file language of
                 (lg, Inl e) \<Rightarrow> \<lparr>calls = lg, stdout = [], ended = Uncaught e\<rparr>
               | (lg, Inr result) \<Rightarrow> \<lparr>calls = lg, stdout = [result], ended = Exit 0\<rparr>)))"

subsection \<open>The TranscriptionResult shape of the specification\<close>

text \<open>
  Section 3 of the specification describes the printed object in words: a closed
  record with the fields \<open>success\<close> (boolean), \<open>text\<close> (string), \<open>language\<close>
  (string), \<open>duration\<close> (number, present only on success) and \<open>error\<close> (string,
  present only when \<open>success\<close> is false), where \<open>text\<close> is always present
  and is the empty string on failure. These two definitions follow those words, not
  the code: \<open>known_fields\<close> is everything but the sentence about \<open>text\<close>, and
  \<open>TranscriptionResult\<close> adds that sentence.
\<close>

fun field_ok :: "string \<times> 'f pyval \<Rightarrow> bool" where
  "field_ok (k, PyBool b) = (k = ''success'')"
| "field_ok (k, PyStr s) = (k = ''text'' \<or> k = ''language'' \<or> k = ''error'')"
| "field_ok (k, PyFloat x) = (k = ''duration'')"

definition known_fields :: "'f pydict \<Rightarrow> bool" where
  "known_fields d =
     (distinct (map fst d) \<and> list_all field_ok d \<and> ''success'' \<in> set (map fst d) \<and>
      (''error'' \<in> set (map fst d)) = (map_of d ''success'' = Some (PyBool False)) \<and>
      (if ''duration'' \<in> set (map fst d) then map_of d ''success'' = Some (PyBool True)
       else True))"

definition TranscriptionResult :: "'f pydict \<Rightarrow> bool" where
  "TranscriptionResult d =
     (known_fields d \<and>
      (case map_of d ''text'' of
         Some (PyStr t) \<Rightarrow>
           (if map_of d ''success'' = Some (PyBool False) then t = [] else True)
       | _ \<Rightarrow> False))"

subsection \<open>Concrete worlds\<close>

text \<open>
  The scenario of section 8 of the specification: faster-whisper is installed and
  yields the two segments \<^verbatim>\<open>" Hello "\<close> and \<^verbatim>\<open>"world. "\<close>, detected language
  \<^verbatim>\<open>"en"\<close>, duration 3.2; the file \<^verbatim>\<open>speech.wav\<close> exists and no other file does.
  In this world torch and openai-whisper are not installed.
\<close>

definition speech_world :: "real world" where
  "speech_world =
     \<lparr>import_faster_whisper = None,
      environ_WHISPER_MODEL = None,
      import_torch = Some (PyExc ImportError ''No module named torch''),
      mps_is_available = Inr False,
      WhisperModel = (\<lambda>model_size device compute_type. None),
      model_transcribe = (\<lambda>model audio_path language beam_size word_timestamps vad_filter.
         Inr (Yield \<lparr>seg_text = '' Hello ''\<rparr> (Yield \<lparr>seg_text = ''world. ''\<rparr> Stop),
              \<lparr>info_language = Some ''en'', info_duration = 3.2\<rparr>)),
      import_whisper = Some (PyExc ImportError ''No module named whisper''),
      load_model = (\<lambda>name. None),
      whisper_transcribe = (\<lambda>model audio_path language.
         Inr \<lparr>r_text = '' Hello world. '', r_language = Some ''en''\<rparr>),
      path_exists = (\<lambda>p. p = ''speech.wav'')\<rparr>"

text \<open>
  The same machine with openai-whisper installed as well, and with silence in the
  file: faster-whisper yields no segment and reports no language.
\<close>

definition both_world :: "real world" where
  "both_world = speech_world\<lparr>import_whisper := None\<rparr>"

definition silent_world :: "real world" where
  "silent_world =
     speech_world\<lparr>model_transcribe :=
       (\<lambda>model audio_path language beam_size word_timestamps vad_filter.
          Inr (Stop, \<lparr>info_language = None, info_duration = 3.2\<rparr>))\<rparr>"

text \<open>
  A machine without faster-whisper, where openai-whisper is installed and fails
  while it decodes the file.
\<close>

definition fallback_world :: "real world" where
  "fallback_world =
     speech_world\<lparr>import_faster_whisper :=
                    Some (PyExc ImportError ''No module named faster_whisper''),
                  import_whisper := None,
                  whisper_transcribe := (\<lambda>model audio_path language.
                    Inl (PyExc Exception ''Failed to load audio''))\<rparr>"

text \<open>
  The machine of \<open>both_world\<close> where faster-whisper fails while it decodes: the
  generator yields one segment and then raises.
\<close>

definition broken_world :: "real world" where
  "broken_world =
     both_world\<lparr>model_transcribe :=
       (\<lambda>model audio_path language beam_size word_timestamps vad_filter.
          Inr (Yield \<lparr>seg_text = '' Hello ''\<rparr> (Raise (PyExc Exception ''Invalid data found'')),
               \<lparr>info_language = Some ''en'', info_duration = 3.2\<rparr>))\<rparr>"

text \<open>
  The machine of \<open>both_world\<close> where faster-whisper is imported, and the
  constructor of its model raises an ImportError for a module it needs.
\<close>

definition missing_dependency_world :: "real world" where
  "missing_dependency_world =
     both_world\<lparr>WhisperModel :=
       (\<lambda>model_size device compute_type.
          Some (PyExc ImportError ''No module named onnxruntime''))\<rparr>"

text \<open>
  The machine of \<open>both_world\<close> where faster-whisper is installed and cannot be
  imported: the import raises an OSError, which is not an ImportError, because a
  shared library the package loads is missing.
\<close>

definition unloadable_world :: "real world" where
  "unloadable_world =
     both_world\<lparr>import_faster_whisper :=
       Some (PyExc Exception ''libctranslate2.so: cannot open shared object file'')\<rparr>"

section \<open>Properties\<close>

subsection \<open>What \<open>strip\<close> and \<open>join\<close> compute\<close>

text \<open>
  \<open>strip\<close> removes whitespace and nothing else, from both ends, and all of it:
  the string is a run of whitespace, the stripped string, and a run of whitespace, and
  a stripped string that is not empty neither starts nor ends with whitespace.
  \<open>join\<close> puts the separator before every part but the first.
\<close>

lemma join_Cons: "ys \<noteq> [] \<Longrightarrow> join sep (x # ys) = x @ sep @ join sep ys"
  by (cases ys) simp_all

lemma join_as_concat: "join sep (x # ys) = x @ concat (map (\<lambda>y. sep @ y) ys)"
  by (induction ys arbitrary: x) simp_all

lemma lstrip_decomp: "\<exists>a. s = a @ lstrip s \<and> (\<forall>c \<in> set a. isspace c)"
  unfolding lstrip_def
  by (rule exI [of _ "takeWhile isspace s"]) (auto dest: set_takeWhileD)

lemma rstrip_decomp: "\<exists>b. s = rstrip s @ b \<and> (\<forall>c \<in> set b. isspace c)"
proof -
  have "rev s = takeWhile isspace (rev s) @ dropWhile isspace (rev s)" by simp
  then have "s = rev (dropWhile isspace (rev s)) @ rev (takeWhile isspace (rev s))"
    by (metis rev_append rev_rev_ident)
  moreover have "\<forall>c \<in> set (rev (takeWhile isspace (rev s))). isspace c"
    by (auto dest: set_takeWhileD)
  ultimately show ?thesis unfolding rstrip_def by blast
qed

lemma strip_decomp:
  "\<exists>a b. s = a @ strip s @ b \<and> (\<forall>c \<in> set a. isspace c) \<and> (\<forall>c \<in> set b. isspace c)"
proof -
  obtain a where a: "s = a @ lstrip s" "\<forall>c \<in> set a. isspace c"
    using lstrip_decomp by blast
  obtain b where b: "lstrip s = rstrip (lstrip s) @ b" "\<forall>c \<in> set b. isspace c"
    using rstrip_decomp by blast
  have "s = a @ strip s @ b" using a(1) b(1) by (simp add: strip_def)
  then show ?thesis using a(2) b(2) by blast
qed

lemma strip_ends:
  assumes "strip s \<noteq> []"
  shows "\<not> isspace (hd (strip s))" and "\<not> isspace (last (strip s))"
proof -
  let ?l = "dropWhile isspace s"
  have ne: "dropWhile isspace (rev ?l) \<noteq> []"
    using assms by (simp add: strip_def lstrip_def rstrip_def)
  then have h: "\<not> isspace (hd (dropWhile isspace (rev ?l)))"
    by (rule hd_dropWhile)
  show "\<not> isspace (last (strip s))"
    using h ne by (simp add: strip_def lstrip_def rstrip_def last_rev)
  have lne: "?l \<noteq> []" using ne by (cases "dropWhile isspace s") simp_all
  then have hl: "\<not> isspace (hd ?l)" by (rule hd_dropWhile)
  have "rev ?l = takeWhile isspace (rev ?l) @ dropWhile isspace (rev ?l)" by simp
  then have "?l = rev (dropWhile isspace (rev ?l)) @ rev (takeWhile isspace (rev ?l))"
    by (metis rev_append rev_rev_ident)
  then have "hd ?l = hd (rev (dropWhile isspace (rev ?l)))"
    using ne by (metis hd_append2 rev_is_Nil_conv)
  then show "\<not> isspace (hd (strip s))"
    using hl by (simp add: strip_def lstrip_def rstrip_def)
qed

subsection \<open>The loop, the probe and the body of the outer \<^verbatim>\<open>try\<close>\<close>

text \<open>
  The loop returns the stripped texts of all segments, in the order they were
  yielded, when the generator ends, and raises what the generator raises otherwise.
\<close>

lemma collect_finished:
  "raised g = None \<Longrightarrow> collect g acc = Inr (acc @ map (\<lambda>s. strip (seg_text s)) (yielded g))"
  by (induction g arbitrary: acc) simp_all

lemma collect_raised:
  "raised g = Some e \<Longrightarrow> collect g acc = Inl e"
  by (induction g arbitrary: acc) simp_all

lemma probe_mps_cpu_int8: "probe_mps w = (''cpu'', ''int8'')"
  by (simp add: probe_mps_def Let_def split: option.split sum.split)

lemma faster_whisper_body_success:
  assumes "import_faster_whisper w = None"
    and "WhisperModel w (environ_get (environ_WHISPER_MODEL w) ''base'') ''cpu'' ''int8'' = None"
    and "model_transcribe w
           \<lparr>m_model_size = environ_get (environ_WHISPER_MODEL w) ''base'',
            m_device = ''cpu'', m_compute_type = ''int8''\<rparr>
           audio_path (if language \<noteq> [] then Some language else None) 5 False True
         = Inr (segments, info)"
    and "raised segments = None"
  shows "faster_whisper_body w audio_path language =
           ([Import_faster_whisper,
             Call_WhisperModel (environ_get (environ_WHISPER_MODEL w) ''base'') ''cpu'' ''int8'',
             Call_model_transcribe audio_path (if language \<noteq> [] then Some language else None)
               5 False True],
            Inr [(''success'', PyBool True),
                 (''text'', PyStr (join '' '' (map (\<lambda>s. strip (seg_text s)) (yielded segments)))),
                 (''language'', PyStr (case info_language info of
                                         Some l \<Rightarrow> if l \<noteq> [] then l else language
                                       | None \<Rightarrow> language)),
                 (''duration'', PyFloat (info_duration info))])"
  using assms
  by (simp add: faster_whisper_body_def probe_mps_cpu_int8 Let_def collect_finished)

lemma transcribe_returns_body:
  "faster_whisper_body w audio_path language = (cs, Inr d) \<Longrightarrow>
   transcribe w audio_path language = (cs, Inr d)"
  by (simp add: transcribe_def)

subsection \<open>The calls in the log and the dictionaries returned\<close>

text \<open>
  Each body makes its calls in a fixed order and stops at the first that raises, so
  its log is a prefix of three calls; the log of \<^verbatim>\<open>transcribe\<close> is the log of the
  outer body, followed by the log of the inner body when line 58 caught the exception.
\<close>

lemma faster_whisper_body_log:
  "fst (faster_whisper_body w audio_path language) = [Import_faster_whisper] \<or>
   fst (faster_whisper_body w audio_path language) =
     [Import_faster_whisper,
      Call_WhisperModel (environ_get (environ_WHISPER_MODEL w) ''base'') ''cpu'' ''int8''] \<or>
   fst (faster_whisper_body w audio_path language) =
     [Import_faster_whisper,
      Call_WhisperModel (environ_get (environ_WHISPER_MODEL w) ''base'') ''cpu'' ''int8'',
      Call_model_transcribe audio_path (if language \<noteq> [] then Some language else None)
        5 False True]"
  by (simp add: faster_whisper_body_def probe_mps_cpu_int8 Let_def
           split: option.split sum.split prod.split)

lemma whisper_body_log:
  "fst (whisper_body w audio_path language) = [Import_whisper] \<or>
   fst (whisper_body w audio_path language) = [Import_whisper, Call_load_model ''base''] \<or>
   fst (whisper_body w audio_path language) =
     [Import_whisper, Call_load_model ''base'', Call_whisper_transcribe audio_path language]"
  by (simp add: whisper_body_def Let_def split: option.split sum.split)

lemma transcribe_log:
  "fst (transcribe w audio_path language) = fst (faster_whisper_body w audio_path language) \<or>
   fst (transcribe w audio_path language) =
     fst (faster_whisper_body w audio_path language) @ fst (whisper_body w audio_path language)"
  by (simp add: transcribe_def split: prod.split sum.split)

lemma faster_whisper_body_no_secondary:
  "filter secondary_call (fst (faster_whisper_body w audio_path language)) = []"
  using faster_whisper_body_log [of w audio_path language] by auto

lemma transcribe_result_cases:
  assumes "transcribe w audio_path language = (cs, Inr d)"
  shows "(\<exists>t l x. d = [(''success'', PyBool True), (''text'', PyStr t),
                        (''language'', PyStr l), (''duration'', PyFloat x)]) \<or>
         (\<exists>t l. d = [(''success'', PyBool True), (''text'', PyStr t), (''language'', PyStr l)]) \<or>
         (\<exists>m. d = [(''success'', PyBool False), (''error'', PyStr m), (''text'', PyStr [])])"
proof -
  have body: "\<And>cs' d'. faster_whisper_body w audio_path language = (cs', Inr d') \<Longrightarrow>
      \<exists>t l x. d' = [(''success'', PyBool True), (''text'', PyStr t),
                     (''language'', PyStr l), (''duration'', PyFloat x)]"
    by (auto simp: faster_whisper_body_def Let_def
             split: option.splits sum.splits prod.splits)
  have fallback: "\<And>cs' d'. whisper_body w audio_path language = (cs', Inr d') \<Longrightarrow>
      \<exists>t l. d' = [(''success'', PyBool True), (''text'', PyStr t), (''language'', PyStr l)]"
    by (auto simp: whisper_body_def Let_def split: option.splits sum.splits)
  obtain c1 r1 where r1: "faster_whisper_body w audio_path language = (c1, r1)"
    by (cases "faster_whisper_body w audio_path language")
  obtain c2 r2 where r2: "whisper_body w audio_path language = (c2, r2)"
    by (cases "whisper_body w audio_path language")
  show ?thesis
  proof (cases r1)
    case (Inr d1)
    with assms r1 have "d = d1" by (simp add: transcribe_def)
    with body r1 Inr show ?thesis by blast
  next
    case (Inl e)
    show ?thesis
    proof (cases r2)
      case (Inr d2)
      with fallback r2 have "\<exists>t l. d2 = [(''success'', PyBool True), (''text'', PyStr t),
                                          (''language'', PyStr l)]" by blast
      with assms r1 r2 Inl Inr show ?thesis
        by (auto simp: transcribe_def split: if_splits)
    next
      case (Inl e2)
      with assms r1 r2 \<open>r1 = Inl e\<close> show ?thesis
        by (auto simp: transcribe_def split: if_splits)
    qed
  qed
qed

lemma faster_whisper_body_log_constructed:
  assumes "import_faster_whisper w = None"
    and "WhisperModel w (environ_get (environ_WHISPER_MODEL w) ''base'') ''cpu'' ''int8'' = None"
  shows "fst (faster_whisper_body w audio_path language) =
           [Import_faster_whisper,
            Call_WhisperModel (environ_get (environ_WHISPER_MODEL w) ''base'') ''cpu'' ''int8'',
            Call_model_transcribe audio_path (if language \<noteq> [] then Some language else None)
              5 False True]"
  using assms
  by (simp add: faster_whisper_body_def probe_mps_cpu_int8 Let_def
           split: option.split sum.split prod.split)

lemma faster_whisper_body_log_imported:
  assumes "import_faster_whisper w = None"
  shows "Call_WhisperModel (environ_get (environ_WHISPER_MODEL w) ''base'') ''cpu'' ''int8''
           \<in> set (fst (faster_whisper_body w audio_path language))"
  using assms
  by (simp add: faster_whisper_body_def probe_mps_cpu_int8 Let_def
           split: option.split sum.split prod.split)

lemma transcribe_log_prefix:
  "set (fst (faster_whisper_body w audio_path language))
     \<subseteq> set (fst (transcribe w audio_path language))"
  using transcribe_log [of w audio_path language] by auto

lemma transcribe_log_elements:
  assumes "c \<in> set (fst (transcribe w audio_path language))"
  shows "c = Import_faster_whisper \<or>
         c = Call_WhisperModel (environ_get (environ_WHISPER_MODEL w) ''base'') ''cpu'' ''int8'' \<or>
         c = Call_model_transcribe audio_path (if language \<noteq> [] then Some language else None)
               5 False True \<or>
         c = Import_whisper \<or> c = Call_load_model ''base'' \<or>
         c = Call_whisper_transcribe audio_path language"
proof -
  have "c \<in> set (fst (faster_whisper_body w audio_path language)) \<or>
        c \<in> set (fst (whisper_body w audio_path language))"
    using assms transcribe_log [of w audio_path language] by auto
  then show ?thesis
  proof
    assume "c \<in> set (fst (faster_whisper_body w audio_path language))"
    then show ?thesis
      using faster_whisper_body_log [of w audio_path language] by auto
  next
    assume "c \<in> set (fst (whisper_body w audio_path language))"
    then show ?thesis
      using whisper_body_log [of w audio_path language] by auto
  qed
qed

text \<open>
  The three places where the body of the outer \<^verbatim>\<open>try\<close> can raise once the import
  has succeeded: the constructor, the call of \<^verbatim>\<open>model.transcribe\<close>, and the
  generator while the loop runs.
\<close>

lemma faster_whisper_body_raises:
  assumes "import_faster_whisper w = None"
    and "WhisperModel w (environ_get (environ_WHISPER_MODEL w) ''base'') ''cpu'' ''int8'' = Some e \<or>
         WhisperModel w (environ_get (environ_WHISPER_MODEL w) ''base'') ''cpu'' ''int8'' = None \<and>
         (model_transcribe w
            \<lparr>m_model_size = environ_get (environ_WHISPER_MODEL w) ''base'',
             m_device = ''cpu'', m_compute_type = ''int8''\<rparr>
            audio_path (if language \<noteq> [] then Some language else None) 5 False True = Inl e \<or>
          (\<exists>segments info.
             model_transcribe w
               \<lparr>m_model_size = environ_get (environ_WHISPER_MODEL w) ''base'',
                m_device = ''cpu'', m_compute_type = ''int8''\<rparr>
               audio_path (if language \<noteq> [] then Some language else None) 5 False True
             = Inr (segments, info) \<and> raised segments = Some e))"
  shows "snd (faster_whisper_body w audio_path language) = Inl e"
  using assms
  by (auto simp: faster_whisper_body_def probe_mps_cpu_int8 Let_def collect_raised)

text \<open>The same for the body of the inner \<^verbatim>\<open>try\<close>.\<close>

lemma whisper_body_raises:
  assumes "import_whisper w = Some e \<or>
           import_whisper w = None \<and>
           (load_model w ''base'' = Some e \<or>
            load_model w ''base'' = None \<and>
            whisper_transcribe w ''base'' audio_path language = Inl e)"
  shows "snd (whisper_body w audio_path language) = Inl e"
  using assms by (auto simp: whisper_body_def Let_def)

lemma whisper_body_log_loaded:
  assumes "import_whisper w = None" and "load_model w ''base'' = None"
  shows "fst (whisper_body w audio_path language) =
           [Import_whisper, Call_load_model ''base'', Call_whisper_transcribe audio_path language]"
  using assms by (simp add: whisper_body_def Let_def split: sum.split)

text \<open>What each handler of \<^verbatim>\<open>transcribe\<close> does with the exception it is given.\<close>

lemma transcribe_except_Exception:
  assumes "faster_whisper_body w audio_path language = (cs, Inl e)"
    and "exc_class e = Exception"
  shows "transcribe w audio_path language =
           (cs, Inr [(''success'', PyBool False), (''error'', PyStr (exc_str e)),
                     (''text'', PyStr [])])"
  using assms
  by (simp add: transcribe_def isinstance_ImportError_def isinstance_Exception_def)

lemma transcribe_except_ImportError:
  assumes "faster_whisper_body w audio_path language = (cs, Inl e)"
    and "exc_class e = ImportError"
  shows "transcribe w audio_path language =
           (case whisper_body w audio_path language of
              (cs', Inr d) \<Rightarrow> (cs @ cs', Inr d)
            | (cs', Inl e') \<Rightarrow>
                if exc_class e' \<noteq> BaseException then
                  (cs @ cs', Inr [(''success'', PyBool False),
                                  (''error'', PyStr (''Whisper not available: '' @ exc_str e')),
                                  (''text'', PyStr [])])
                else (cs @ cs', Inl e'))"
  using assms
  by (simp add: transcribe_def isinstance_ImportError_def isinstance_Exception_def
           split: prod.split sum.split)

text \<open>Neither body reads the two fields of the world the probe reads.\<close>

lemma faster_whisper_body_probe:
  "faster_whisper_body (w\<lparr>import_torch := t, mps_is_available := m\<rparr>) audio_path language
     = faster_whisper_body w audio_path language"
  by (simp add: faster_whisper_body_def probe_mps_cpu_int8 Let_def
           cong: option.case_cong sum.case_cong)

lemma whisper_body_probe:
  "whisper_body (w\<lparr>import_torch := t, mps_is_available := m\<rparr>) audio_path language
     = whisper_body w audio_path language"
  by (simp add: whisper_body_def Let_def cong: option.case_cong sum.case_cong)

text \<open>Every dictionary \<^verbatim>\<open>transcribe\<close> returns has the shape of section 3.\<close>

lemma transcribe_result_shape:
  assumes "transcribe w audio_path language = (cs, Inr d)"
  shows "TranscriptionResult d"
  using transcribe_result_cases [OF assms]
  by (auto simp: TranscriptionResult_def known_fields_def)

subsection \<open>The primary backend succeeds\<close>

text \<open>
  Claim C1. Take a run in which the primary backend succeeds: faster-whisper is
  imported, the model is constructed, \<^verbatim>\<open>model.transcribe\<close> returns the generator
  \<open>segments\<close> and \<open>info\<close>, and the generator ends without raising. Then
  \<^verbatim>\<open>transcribe\<close> returns a dictionary with \<open>success\<close> true, whose \<open>text\<close> is
  the texts of the yielded segments, each stripped of leading and trailing
  whitespace, in the order they were yielded, joined with one space, and whose
  \<open>duration\<close> is present and is \<^verbatim>\<open>info.duration\<close>.
\<close>

theorem transcribe_primary_text_duration:
  assumes "import_faster_whisper w = None"
    and "WhisperModel w (environ_get (environ_WHISPER_MODEL w) ''base'') ''cpu'' ''int8'' = None"
    and "model_transcribe w
           \<lparr>m_model_size = environ_get (environ_WHISPER_MODEL w) ''base'',
            m_device = ''cpu'', m_compute_type = ''int8''\<rparr>
           audio_path (if language \<noteq> [] then Some language else None) 5 False True
         = Inr (segments, info)"
    and "raised segments = None"
  shows "\<exists>cs d. transcribe w audio_path language = (cs, Inr d) \<and>
           map_of d ''success'' = Some (PyBool True) \<and>
           map_of d ''text'' =
             Some (PyStr (join '' '' (map (\<lambda>s. strip (seg_text s)) (yielded segments)))) \<and>
           map_of d ''duration'' = Some (PyFloat (info_duration info))"
proof -
  note body = faster_whisper_body_success [OF assms]
  show ?thesis
    unfolding transcribe_returns_body [OF body] by simp
qed

text \<open>
  The scenario of section 8: the segments \<^verbatim>\<open>" Hello "\<close> and \<^verbatim>\<open>"world. "\<close> give the
  text \<^verbatim>\<open>"Hello world."\<close> and the duration 3.2.
\<close>

theorem transcribe_primary_text_duration_witness:
  "import_faster_whisper speech_world = None \<and>
   WhisperModel speech_world (environ_get (environ_WHISPER_MODEL speech_world) ''base'')
     ''cpu'' ''int8'' = None \<and>
   raised (Yield \<lparr>seg_text = '' Hello ''\<rparr> (Yield \<lparr>seg_text = ''world. ''\<rparr> Stop)) = None \<and>
   (\<exists>cs d. transcribe speech_world ''speech.wav'' ''en'' = (cs, Inr d) \<and>
      map_of d ''success'' = Some (PyBool True) \<and>
      map_of d ''text'' = Some (PyStr ''Hello world.'') \<and>
      map_of d ''duration'' = Some (PyFloat 3.2))"
  using transcribe_primary_text_duration
    [of speech_world "''speech.wav''" "''en''"
        "Yield \<lparr>seg_text = '' Hello ''\<rparr> (Yield \<lparr>seg_text = ''world. ''\<rparr> Stop)"
        "\<lparr>info_language = Some ''en'', info_duration = 3.2\<rparr>"]
  by (simp add: speech_world_def strip_def lstrip_def rstrip_def isspace_def)

text \<open>
  Claim C10. When the primary backend succeeds and its generator yields no segment,
  \<^verbatim>\<open>transcribe\<close> returns \<open>success\<close> true with the empty string as \<open>text\<close>: the
  same \<open>text\<close> as in a failure.
\<close>

theorem transcribe_no_segments_success:
  assumes "import_faster_whisper w = None"
    and "WhisperModel w (environ_get (environ_WHISPER_MODEL w) ''base'') ''cpu'' ''int8'' = None"
    and "model_transcribe w
           \<lparr>m_model_size = environ_get (environ_WHISPER_MODEL w) ''base'',
            m_device = ''cpu'', m_compute_type = ''int8''\<rparr>
           audio_path (if language \<noteq> [] then Some language else None) 5 False True
         = Inr (Stop, info)"
  shows "\<exists>cs d. transcribe w audio_path language = (cs, Inr d) \<and>
           map_of d ''success'' = Some (PyBool True) \<and>
           map_of d ''text'' = Some (PyStr [])"
proof -
  have "raised (Stop :: segment generator) = None" by simp
  note body = faster_whisper_body_success [OF assms this]
  show ?thesis
    unfolding transcribe_returns_body [OF body] by simp
qed

theorem transcribe_no_segments_success_witness:
  "import_faster_whisper silent_world = None \<and>
   WhisperModel silent_world (environ_get (environ_WHISPER_MODEL silent_world) ''base'')
     ''cpu'' ''int8'' = None \<and>
   (\<exists>cs d. transcribe silent_world ''speech.wav'' ''en'' = (cs, Inr d) \<and>
      map_of d ''success'' = Some (PyBool True) \<and>
      map_of d ''text'' = Some (PyStr []))"
  using transcribe_no_segments_success
    [of silent_world "''speech.wav''" "''en''" "\<lparr>info_language = None, info_duration = 3.2\<rparr>"]
  by (simp add: silent_world_def speech_world_def)

text \<open>
  Claim C6. In every run of \<^verbatim>\<open>transcribe\<close>, whenever \<^verbatim>\<open>model.transcribe\<close> of the
  primary backend is called, its \<open>language\<close> argument is the requested language,
  unless the requested language is empty, and then it is \<open>None\<close> (the backend
  detects the language); the call is made as soon as the import and the constructor
  have succeeded. When the primary backend succeeds, the \<open>language\<close> of the result is
  the language the backend reports, and the requested language when it reports none
  (\<open>None\<close> or the empty string, the two values Python takes as false).
\<close>

theorem transcribe_language_hint_and_field:
  "(\<forall>c \<in> set (fst (transcribe w audio_path language)). \<forall>p h b wt vad.
      c = Call_model_transcribe p h b wt vad \<longrightarrow>
      h = (if language \<noteq> [] then Some language else None)) \<and>
   (import_faster_whisper w = None \<longrightarrow>
    WhisperModel w (environ_get (environ_WHISPER_MODEL w) ''base'') ''cpu'' ''int8'' = None \<longrightarrow>
      Call_model_transcribe audio_path (if language \<noteq> [] then Some language else None)
        5 False True \<in> set (fst (transcribe w audio_path language)) \<and>
      (\<forall>segments info.
         model_transcribe w
           \<lparr>m_model_size = environ_get (environ_WHISPER_MODEL w) ''base'',
            m_device = ''cpu'', m_compute_type = ''int8''\<rparr>
           audio_path (if language \<noteq> [] then Some language else None) 5 False True
         = Inr (segments, info) \<longrightarrow>
         raised segments = None \<longrightarrow>
         (\<exists>cs d. transcribe w audio_path language = (cs, Inr d) \<and>
            map_of d ''language'' =
              Some (PyStr (case info_language info of
                             Some l \<Rightarrow> if l \<noteq> [] then l else language
                           | None \<Rightarrow> language)))))"
proof (intro conjI ballI allI impI)
  fix c p h b wt vad
  assume "c \<in> set (fst (transcribe w audio_path language))"
    and "c = Call_model_transcribe p h b wt vad"
  then show "h = (if language \<noteq> [] then Some language else None)"
    using transcribe_log_elements [of c w audio_path language] by auto
next
  assume "import_faster_whisper w = None"
    and "WhisperModel w (environ_get (environ_WHISPER_MODEL w) ''base'') ''cpu'' ''int8'' = None"
  then have "Call_model_transcribe audio_path (if language \<noteq> [] then Some language else None)
               5 False True \<in> set (fst (faster_whisper_body w audio_path language))"
    by (simp add: faster_whisper_body_log_constructed)
  then show "Call_model_transcribe audio_path (if language \<noteq> [] then Some language else None)
               5 False True \<in> set (fst (transcribe w audio_path language))"
    using transcribe_log_prefix [of w audio_path language] by blast
next
  fix segments info
  assume "import_faster_whisper w = None"
    and "WhisperModel w (environ_get (environ_WHISPER_MODEL w) ''base'') ''cpu'' ''int8'' = None"
    and "model_transcribe w
           \<lparr>m_model_size = environ_get (environ_WHISPER_MODEL w) ''base'',
            m_device = ''cpu'', m_compute_type = ''int8''\<rparr>
           audio_path (if language \<noteq> [] then Some language else None) 5 False True
         = Inr (segments, info)"
    and "raised segments = None"
  note body = faster_whisper_body_success [OF this]
  show "\<exists>cs d. transcribe w audio_path language = (cs, Inr d) \<and>
          map_of d ''language'' =
            Some (PyStr (case info_language info of
                           Some l \<Rightarrow> if l \<noteq> [] then l else language
                         | None \<Rightarrow> language))"
    unfolding transcribe_returns_body [OF body] by simp
qed

text \<open>
  With the language \<^verbatim>\<open>"fr"\<close> requested, faster-whisper is called with \<^verbatim>\<open>"fr"\<close>; it
  reports \<^verbatim>\<open>"en"\<close>, which is the language of the result. With the empty language
  requested it is called with \<open>None\<close>; in \<open>silent_world\<close> it reports no language,
  and the language requested, \<^verbatim>\<open>"fr"\<close>, is the language of the result.
\<close>

theorem transcribe_language_hint_and_field_witness:
  "import_faster_whisper speech_world = None \<and>
   WhisperModel speech_world ''base'' ''cpu'' ''int8'' = None \<and>
   Call_model_transcribe ''speech.wav'' (Some ''fr'') 5 False True
     \<in> set (fst (transcribe speech_world ''speech.wav'' ''fr'')) \<and>
   (\<exists>cs d. transcribe speech_world ''speech.wav'' ''fr'' = (cs, Inr d) \<and>
      map_of d ''language'' = Some (PyStr ''en'')) \<and>
   Call_model_transcribe ''speech.wav'' None 5 False True
     \<in> set (fst (transcribe speech_world ''speech.wav'' [])) \<and>
   (\<exists>cs d. transcribe silent_world ''speech.wav'' ''fr'' = (cs, Inr d) \<and>
      map_of d ''language'' = Some (PyStr ''fr''))"
  using transcribe_language_hint_and_field [of speech_world "''speech.wav''" "''fr''"]
    transcribe_language_hint_and_field [of speech_world "''speech.wav''" "[]"]
    transcribe_language_hint_and_field [of silent_world "''speech.wav''" "''fr''"]
  by (simp add: silent_world_def speech_world_def environ_get_def)

subsection \<open>The primary backend raises\<close>

text \<open>
  Claim C2, as the specification states it, for an ImportError: in
  \<open>missing_dependency_world\<close> faster-whisper is imported and the constructor of the
  model raises an ImportError. Line 58 catches it as it catches a failed import: the
  secondary backend is called, and the result is its transcript with \<open>success\<close>
  true, not a failure with the message of the error.
\<close>

theorem transcribe_primary_ImportError_falls_back:
  "import_faster_whisper missing_dependency_world = None \<and>
   WhisperModel missing_dependency_world ''base'' ''cpu'' ''int8''
     = Some (PyExc ImportError ''No module named onnxruntime'') \<and>
   transcribe missing_dependency_world ''speech.wav'' ''en'' =
     ([Import_faster_whisper, Call_WhisperModel ''base'' ''cpu'' ''int8'',
       Import_whisper, Call_load_model ''base'', Call_whisper_transcribe ''speech.wav'' ''en''],
      Inr [(''success'', PyBool True), (''text'', PyStr ''Hello world.''),
           (''language'', PyStr ''en'')])"
  by (simp add: missing_dependency_world_def both_world_def speech_world_def
        transcribe_def faster_whisper_body_def whisper_body_def probe_mps_cpu_int8
        environ_get_def isinstance_ImportError_def
        strip_def lstrip_def rstrip_def isspace_def)

text \<open>
  Claim C2, amended. When faster-whisper is imported and the primary backend then
  raises, in the constructor, in \<^verbatim>\<open>model.transcribe\<close> or while the segments are
  read, an exception \<open>e\<close> of class Exception that is not an ImportError,
  \<^verbatim>\<open>transcribe\<close> returns \<open>success\<close> false, \<^verbatim>\<open>str(e)\<close> as \<open>error\<close> and the empty
  \<open>text\<close>, and no call to the secondary backend is in the log.
\<close>

theorem transcribe_primary_error_no_fallback:
  assumes "import_faster_whisper w = None"
    and "WhisperModel w (environ_get (environ_WHISPER_MODEL w) ''base'') ''cpu'' ''int8'' = Some e \<or>
         WhisperModel w (environ_get (environ_WHISPER_MODEL w) ''base'') ''cpu'' ''int8'' = None \<and>
         (model_transcribe w
            \<lparr>m_model_size = environ_get (environ_WHISPER_MODEL w) ''base'',
             m_device = ''cpu'', m_compute_type = ''int8''\<rparr>
            audio_path (if language \<noteq> [] then Some language else None) 5 False True = Inl e \<or>
          (\<exists>segments info.
             model_transcribe w
               \<lparr>m_model_size = environ_get (environ_WHISPER_MODEL w) ''base'',
                m_device = ''cpu'', m_compute_type = ''int8''\<rparr>
               audio_path (if language \<noteq> [] then Some language else None) 5 False True
             = Inr (segments, info) \<and> raised segments = Some e))"
    and "exc_class e = Exception"
  shows "\<exists>cs. transcribe w audio_path language =
                 (cs, Inr [(''success'', PyBool False), (''error'', PyStr (exc_str e)),
                           (''text'', PyStr [])]) \<and>
              filter secondary_call cs = []"
proof -
  obtain cs r where body: "faster_whisper_body w audio_path language = (cs, r)"
    by (cases "faster_whisper_body w audio_path language")
  have "r = Inl e"
    using faster_whisper_body_raises [OF assms(1) assms(2)] body by simp
  with body have "transcribe w audio_path language =
      (cs, Inr [(''success'', PyBool False), (''error'', PyStr (exc_str e)), (''text'', PyStr [])])"
    using transcribe_except_Exception assms(3) by blast
  moreover have "filter secondary_call cs = []"
    using faster_whisper_body_no_secondary [of w audio_path language] body by simp
  ultimately show ?thesis by blast
qed

theorem transcribe_primary_error_no_fallback_witness:
  "import_faster_whisper broken_world = None \<and>
   WhisperModel broken_world ''base'' ''cpu'' ''int8'' = None \<and>
   raised (Yield \<lparr>seg_text = '' Hello ''\<rparr> (Raise (PyExc Exception ''Invalid data found'')))
     = Some (PyExc Exception ''Invalid data found'') \<and>
   import_whisper broken_world = None \<and>
   (\<exists>cs. transcribe broken_world ''speech.wav'' ''en'' =
           (cs, Inr [(''success'', PyBool False), (''error'', PyStr ''Invalid data found''),
                     (''text'', PyStr [])]) \<and>
         filter secondary_call cs = [])"
  using transcribe_primary_error_no_fallback
    [of broken_world "PyExc Exception ''Invalid data found''" "''speech.wav''" "''en''"]
  by (simp add: broken_world_def both_world_def speech_world_def environ_get_def)

subsection \<open>The primary backend cannot be imported\<close>

text \<open>
  Claim C3, as the specification states it, for an import that fails with another
  class of exception: in \<open>unloadable_world\<close> the import of faster-whisper raises
  an OSError. Line 58 does not catch it, line 78 does: \<^verbatim>\<open>transcribe\<close> returns the
  failure with the message of the OSError, and the secondary backend, which is
  installed, is not attempted: its import is not in the log.
\<close>

theorem transcribe_import_OSError_no_fallback:
  "import_faster_whisper unloadable_world
     = Some (PyExc Exception ''libctranslate2.so: cannot open shared object file'') \<and>
   import_whisper unloadable_world = None \<and>
   transcribe unloadable_world ''speech.wav'' ''en'' =
     ([Import_faster_whisper],
      Inr [(''success'', PyBool False),
           (''error'', PyStr ''libctranslate2.so: cannot open shared object file''),
           (''text'', PyStr [])]) \<and>
   Import_whisper \<notin> set (fst (transcribe unloadable_world ''speech.wav'' ''en''))"
  by (simp add: unloadable_world_def both_world_def speech_world_def
        transcribe_def faster_whisper_body_def
        isinstance_ImportError_def isinstance_Exception_def)

text \<open>
  Claim C3, amended. Take a run in which the import of faster-whisper raises an
  ImportError, the class line 58 names. Then the secondary backend is
  attempted (its import is in the log); every call of its \<^verbatim>\<open>transcribe\<close> in the
  log has the audio path and the language that were requested, and the call is made
  as soon as the import of openai-whisper and \<^verbatim>\<open>load_model\<close> have succeeded. If
  the secondary backend raises an error \<open>e'\<close> (an exception of class Exception, in
  the import, in \<^verbatim>\<open>load_model\<close> or in \<^verbatim>\<open>transcribe\<close>), the result is
  \<open>success\<close> false, the empty \<open>text\<close>, and the \<open>error\<close>
  \<^verbatim>\<open>"Whisper not available: "\<close> followed by \<^verbatim>\<open>str(e')\<close>.
\<close>

theorem transcribe_fallback_on_ImportError:
  assumes "import_faster_whisper w = Some e" and "exc_class e = ImportError"
  shows "Import_whisper \<in> set (fst (transcribe w audio_path language)) \<and>
         (\<forall>p l. Call_whisper_transcribe p l \<in> set (fst (transcribe w audio_path language)) \<longrightarrow>
                p = audio_path \<and> l = language) \<and>
         (import_whisper w = None \<longrightarrow> load_model w ''base'' = None \<longrightarrow>
            Call_whisper_transcribe audio_path language
              \<in> set (fst (transcribe w audio_path language))) \<and>
         (\<forall>e'. (import_whisper w = Some e' \<or>
                 import_whisper w = None \<and>
                 (load_model w ''base'' = Some e' \<or>
                  load_model w ''base'' = None \<and>
                  whisper_transcribe w ''base'' audio_path language = Inl e')) \<longrightarrow>
                exc_class e' \<noteq> BaseException \<longrightarrow>
                snd (transcribe w audio_path language) =
                  Inr [(''success'', PyBool False),
                       (''error'', PyStr (''Whisper not available: '' @ exc_str e')),
                       (''text'', PyStr [])])"
proof -
  have body: "faster_whisper_body w audio_path language = ([Import_faster_whisper], Inl e)"
    using assms(1) by (simp add: faster_whisper_body_def)
  note tr = transcribe_except_ImportError [OF body assms(2)]
  obtain cs' r' where wb: "whisper_body w audio_path language = (cs', r')"
    by (cases "whisper_body w audio_path language")
  have lg: "fst (transcribe w audio_path language) = Import_faster_whisper # cs'"
    using tr wb by (simp split: sum.split)
  have first: "Import_whisper \<in> set cs'"
    using whisper_body_log [of w audio_path language] wb by auto
  have only: "\<forall>p l. Call_whisper_transcribe p l \<in> set cs' \<longrightarrow> p = audio_path \<and> l = language"
    using whisper_body_log [of w audio_path language] wb by auto
  have called: "import_whisper w = None \<longrightarrow> load_model w ''base'' = None \<longrightarrow>
      Call_whisper_transcribe audio_path language \<in> set cs'"
    using whisper_body_log_loaded [of w audio_path language] wb by auto
  have fails: "\<forall>e'. (import_whisper w = Some e' \<or>
                 import_whisper w = None \<and>
                 (load_model w ''base'' = Some e' \<or>
                  load_model w ''base'' = None \<and>
                  whisper_transcribe w ''base'' audio_path language = Inl e')) \<longrightarrow>
                exc_class e' \<noteq> BaseException \<longrightarrow>
                snd (transcribe w audio_path language) =
                  Inr [(''success'', PyBool False),
                       (''error'', PyStr (''Whisper not available: '' @ exc_str e')),
                       (''text'', PyStr [])]"
  proof (intro allI impI)
    fix e'
    assume sec: "import_whisper w = Some e' \<or>
            import_whisper w = None \<and>
            (load_model w ''base'' = Some e' \<or>
             load_model w ''base'' = None \<and>
             whisper_transcribe w ''base'' audio_path language = Inl e')"
      and cls: "exc_class e' \<noteq> BaseException"
    have "snd (whisper_body w audio_path language) = Inl e'"
      using sec by (rule whisper_body_raises)
    with wb have "r' = Inl e'" by simp
    with tr wb cls show "snd (transcribe w audio_path language) =
        Inr [(''success'', PyBool False),
             (''error'', PyStr (''Whisper not available: '' @ exc_str e')),
             (''text'', PyStr [])]"
      by simp
  qed
  show ?thesis
    using lg first only called fails by simp
qed

theorem transcribe_fallback_on_ImportError_witness:
  "import_faster_whisper fallback_world = Some (PyExc ImportError ''No module named faster_whisper'') \<and>
   import_whisper fallback_world = None \<and>
   load_model fallback_world ''base'' = None \<and>
   whisper_transcribe fallback_world ''base'' ''speech.wav'' ''fr''
     = Inl (PyExc Exception ''Failed to load audio'') \<and>
   Import_whisper \<in> set (fst (transcribe fallback_world ''speech.wav'' ''fr'')) \<and>
   Call_whisper_transcribe ''speech.wav'' ''fr''
     \<in> set (fst (transcribe fallback_world ''speech.wav'' ''fr'')) \<and>
   snd (transcribe fallback_world ''speech.wav'' ''fr'') =
     Inr [(''success'', PyBool False),
          (''error'', PyStr ''Whisper not available: Failed to load audio''),
          (''text'', PyStr [])]"
  using transcribe_fallback_on_ImportError
    [of fallback_world "PyExc ImportError ''No module named faster_whisper''"
        "''speech.wav''" "''fr''"]
  by (simp add: fallback_world_def speech_world_def)

subsection \<open>Failure results and the probe\<close>

text \<open>
  Claim C9. Every dictionary \<^verbatim>\<open>transcribe\<close> returns with \<open>success\<close> false has
  exactly the three keys \<open>success\<close>, \<open>error\<close> and \<open>text\<close>: it has no
  \<open>language\<close> and no \<open>duration\<close>.
\<close>

theorem transcribe_failure_keys:
  assumes "transcribe w audio_path language = (cs, Inr d)"
    and "map_of d ''success'' = Some (PyBool False)"
  shows "map fst d = [''success'', ''error'', ''text''] \<and>
         map_of d ''language'' = None \<and> map_of d ''duration'' = None"
  using transcribe_result_cases [OF assms(1)] assms(2) by auto

theorem transcribe_failure_keys_witness:
  "transcribe fallback_world ''speech.wav'' ''fr'' =
     ([Import_faster_whisper, Import_whisper, Call_load_model ''base'',
       Call_whisper_transcribe ''speech.wav'' ''fr''],
      Inr [(''success'', PyBool False),
           (''error'', PyStr ''Whisper not available: Failed to load audio''),
           (''text'', PyStr [])]) \<and>
   map fst [(''success'', PyBool False),
            (''error'', PyStr ''Whisper not available: Failed to load audio''),
            (''text'', PyStr ([] :: string)) :: string \<times> real pyval]
     = [''success'', ''error'', ''text'']"
proof -
  have run: "transcribe fallback_world ''speech.wav'' ''fr'' =
     ([Import_faster_whisper, Import_whisper, Call_load_model ''base'',
       Call_whisper_transcribe ''speech.wav'' ''fr''],
      Inr [(''success'', PyBool False),
           (''error'', PyStr ''Whisper not available: Failed to load audio''),
           (''text'', PyStr [])])"
    by (simp add: fallback_world_def speech_world_def transcribe_def faster_whisper_body_def
          whisper_body_def isinstance_ImportError_def isinstance_Exception_def)
  show ?thesis
    using transcribe_failure_keys [OF run] run by simp
qed

text \<open>
  Claim C8. Two runs of \<^verbatim>\<open>transcribe\<close> that differ only in what the probe for
  Metal does (torch imported or not, MPS available or not, the import or the probe
  raising any exception) give the same result and the same log. Every construction
  of the primary model in the log has the device \<^verbatim>\<open>"cpu"\<close> and the compute type
  \<^verbatim>\<open>"int8"\<close>, and the model is constructed so whenever faster-whisper is imported.
\<close>

theorem transcribe_ignores_mps_probe:
  "transcribe (w\<lparr>import_torch := t, mps_is_available := m\<rparr>) audio_path language
     = transcribe w audio_path language \<and>
   (\<forall>c \<in> set (fst (transcribe w audio_path language)). \<forall>s dev ct.
      c = Call_WhisperModel s dev ct \<longrightarrow> dev = ''cpu'' \<and> ct = ''int8'') \<and>
   (import_faster_whisper w = None \<longrightarrow>
      Call_WhisperModel (environ_get (environ_WHISPER_MODEL w) ''base'') ''cpu'' ''int8''
        \<in> set (fst (transcribe w audio_path language)))"
proof (intro conjI ballI allI impI)
  show "transcribe (w\<lparr>import_torch := t, mps_is_available := m\<rparr>) audio_path language
          = transcribe w audio_path language"
    unfolding transcribe_def faster_whisper_body_probe whisper_body_probe ..
next
  fix c s dev ct
  assume "c \<in> set (fst (transcribe w audio_path language))"
    and "c = Call_WhisperModel s dev ct"
  then show "dev = ''cpu''" and "ct = ''int8''"
    using transcribe_log_elements [of c w audio_path language] by auto
next
  assume "import_faster_whisper w = None"
  then show "Call_WhisperModel (environ_get (environ_WHISPER_MODEL w) ''base'') ''cpu'' ''int8''
               \<in> set (fst (transcribe w audio_path language))"
    using faster_whisper_body_log_imported [of w audio_path language]
      transcribe_log_prefix [of w audio_path language] by blast
qed

text \<open>
  On a machine where torch is imported and reports MPS, and on one where the probe
  is interrupted, the run is the run of \<open>speech_world\<close>, where torch is missing.
\<close>

theorem transcribe_ignores_mps_probe_witness:
  "transcribe (speech_world\<lparr>import_torch := None, mps_is_available := Inr True\<rparr>)
     ''speech.wav'' ''en'' = transcribe speech_world ''speech.wav'' ''en'' \<and>
   transcribe (speech_world\<lparr>import_torch := None,
                 mps_is_available := Inl (PyExc BaseException ''KeyboardInterrupt'')\<rparr>)
     ''speech.wav'' ''en'' = transcribe speech_world ''speech.wav'' ''en'' \<and>
   import_faster_whisper speech_world = None \<and>
   Call_WhisperModel ''base'' ''cpu'' ''int8''
     \<in> set (fst (transcribe speech_world ''speech.wav'' ''en''))"
  using transcribe_ignores_mps_probe
      [where w = speech_world and t = None and m = "Inr True"
         and audio_path = "''speech.wav''" and language = "''en''"]
    transcribe_ignores_mps_probe
      [where w = speech_world and t = None
         and m = "Inl (PyExc BaseException ''KeyboardInterrupt'')"
         and audio_path = "''speech.wav''" and language = "''en''"]
  by (simp add: speech_world_def environ_get_def)

subsection \<open>The process\<close>

text \<open>
  Claim C4. When the audio path \<^verbatim>\<open>sys.argv[1]\<close> does not exist, the process prints
  the one object with \<open>success\<close> false and the \<open>error\<close> \<^verbatim>\<open>"File not found: "\<close>
  followed by the path as it was given, exits with status 1, and has called no
  backend: the log is empty.
\<close>

theorem main_file_not_found:
  assumes "2 \<le> length argv" and "\<not> path_exists w (argv ! 1)"
  shows "main w argv =
           \<lparr>calls = [],
            stdout = [[(''success'', PyBool False),
                       (''error'', PyStr (''File not found: '' @ argv ! 1))]],
            ended = Exit 1\<rparr>"
  using assms by (simp add: main_def Let_def)

theorem main_file_not_found_witness:
  "2 \<le> length [''transcribe.py'', ''missing.wav''] \<and>
   \<not> path_exists speech_world ''missing.wav'' \<and>
   main speech_world [''transcribe.py'', ''missing.wav''] =
     \<lparr>calls = [],
      stdout = [[(''success'', PyBool False),
                 (''error'', PyStr ''File not found: missing.wav'')]],
      ended = Exit 1\<rparr>"
  using main_file_not_found [of "[''transcribe.py'', ''missing.wav'']" speech_world]
  by (simp add: speech_world_def)

text \<open>
  Claim C5. With no argument after the program name the process prints the usage
  object and exits with status 1. With one argument the language is \<^verbatim>\<open>"en"\<close>. With two
  or more the second is the language and the others are not read: the run is the run
  on the first three entries of \<^verbatim>\<open>sys.argv\<close>. Whenever \<^verbatim>\<open>transcribe\<close> is reached
  and returns a dictionary, the process prints it and exits with status 0, whatever
  its \<open>success\<close>.
\<close>

theorem main_arguments_and_status:
  "(length argv < 2 \<longrightarrow>
      main w argv =
        \<lparr>calls = [],
         stdout = [[(''success'', PyBool False),
                    (''error'', PyStr ''Usage: transcribe.py <audio_file> [language]'')]],
         ended = Exit 1\<rparr>) \<and>
   (length argv = 2 \<longrightarrow> path_exists w (argv ! 1) \<longrightarrow>
      calls (main w argv) = fst (transcribe w (argv ! 1) ''en'') \<and>
      (\<forall>d. snd (transcribe w (argv ! 1) ''en'') = Inr d \<longrightarrow>
           stdout (main w argv) = [d] \<and> ended (main w argv) = Exit 0)) \<and>
   (2 < length argv \<longrightarrow>
      main w argv = main w (take 3 argv) \<and>
      (path_exists w (argv ! 1) \<longrightarrow>
         calls (main w argv) = fst (transcribe w (argv ! 1) (argv ! 2)) \<and>
         (\<forall>d. snd (transcribe w (argv ! 1) (argv ! 2)) = Inr d \<longrightarrow>
              stdout (main w argv) = [d] \<and> ended (main w argv) = Exit 0)))"
proof (intro conjI impI allI)
  assume "length argv < 2"
  then show "main w argv =
        \<lparr>calls = [],
         stdout = [[(''success'', PyBool False),
                    (''error'', PyStr ''Usage: transcribe.py <audio_file> [language]'')]],
         ended = Exit 1\<rparr>"
    by (simp add: main_def)
next
  assume "length argv = 2" and "path_exists w (argv ! 1)"
  then show "calls (main w argv) = fst (transcribe w (argv ! 1) ''en'')"
    by (simp add: main_def Let_def split: prod.split sum.split)
next
  fix d
  assume "length argv = 2" and "path_exists w (argv ! 1)"
    and "snd (transcribe w (argv ! 1) ''en'') = Inr d"
  then show "stdout (main w argv) = [d]" and "ended (main w argv) = Exit 0"
    by (auto simp: main_def Let_def split: prod.split sum.split)
next
  assume "2 < length argv"
  then show "main w argv = main w (take 3 argv)"
    by (simp add: main_def Let_def)
next
  assume "2 < length argv" and "path_exists w (argv ! 1)"
  then show "calls (main w argv) = fst (transcribe w (argv ! 1) (argv ! 2))"
    by (simp add: main_def Let_def split: prod.split sum.split)
next
  fix d
  assume "2 < length argv" and "path_exists w (argv ! 1)"
    and "snd (transcribe w (argv ! 1) (argv ! 2)) = Inr d"
  then show "stdout (main w argv) = [d]" and "ended (main w argv) = Exit 0"
    by (auto simp: main_def Let_def split: prod.split sum.split)
qed

text \<open>
  Without argument the usage object is printed. With \<^verbatim>\<open>speech.wav\<close> alone the
  backend is called with \<^verbatim>\<open>"en"\<close>; with \<^verbatim>\<open>speech.wav fr extra\<close> it is called with
  \<^verbatim>\<open>"fr"\<close> and the run is the run of \<^verbatim>\<open>speech.wav fr\<close>. In \<open>fallback_world\<close>
  the result has \<open>success\<close> false and the status is 0 all the same.
\<close>

theorem main_arguments_and_status_witness:
  "length [''transcribe.py''] < 2 \<and>
   main speech_world [''transcribe.py''] =
     \<lparr>calls = [],
      stdout = [[(''success'', PyBool False),
                 (''error'', PyStr ''Usage: transcribe.py <audio_file> [language]'')]],
      ended = Exit 1\<rparr> \<and>
   path_exists speech_world ''speech.wav'' \<and>
   main speech_world [''transcribe.py'', ''speech.wav''] =
     \<lparr>calls = [Import_faster_whisper, Call_WhisperModel ''base'' ''cpu'' ''int8'',
               Call_model_transcribe ''speech.wav'' (Some ''en'') 5 False True],
      stdout = [[(''success'', PyBool True), (''text'', PyStr ''Hello world.''),
                 (''language'', PyStr ''en''), (''duration'', PyFloat 3.2)]],
      ended = Exit 0\<rparr> \<and>
   main speech_world [''transcribe.py'', ''speech.wav'', ''fr'', ''extra''] =
     main speech_world [''transcribe.py'', ''speech.wav'', ''fr''] \<and>
   calls (main speech_world [''transcribe.py'', ''speech.wav'', ''fr'', ''extra'']) =
     [Import_faster_whisper, Call_WhisperModel ''base'' ''cpu'' ''int8'',
      Call_model_transcribe ''speech.wav'' (Some ''fr'') 5 False True] \<and>
   main fallback_world [''transcribe.py'', ''speech.wav''] =
     \<lparr>calls = [Import_faster_whisper, Import_whisper, Call_load_model ''base'',
               Call_whisper_transcribe ''speech.wav'' ''en''],
      stdout = [[(''success'', PyBool False),
                 (''error'', PyStr ''Whisper not available: Failed to load audio''),
                 (''text'', PyStr [])]],
      ended = Exit 0\<rparr>"
proof -
  have speech: "transcribe speech_world ''speech.wav'' l =
      ([Import_faster_whisper, Call_WhisperModel ''base'' ''cpu'' ''int8'',
        Call_model_transcribe ''speech.wav'' (if l \<noteq> [] then Some l else None) 5 False True],
       Inr [(''success'', PyBool True), (''text'', PyStr ''Hello world.''),
            (''language'', PyStr ''en''), (''duration'', PyFloat 3.2)])" for l
    by (simp add: speech_world_def transcribe_def faster_whisper_body_def probe_mps_cpu_int8
          environ_get_def strip_def lstrip_def rstrip_def isspace_def)
  have fallback: "transcribe fallback_world ''speech.wav'' ''en'' =
      ([Import_faster_whisper, Import_whisper, Call_load_model ''base'',
        Call_whisper_transcribe ''speech.wav'' ''en''],
       Inr [(''success'', PyBool False),
            (''error'', PyStr ''Whisper not available: Failed to load audio''),
            (''text'', PyStr [])])"
    by (simp add: fallback_world_def speech_world_def transcribe_def faster_whisper_body_def
          whisper_body_def isinstance_ImportError_def isinstance_Exception_def)
  have exists: "path_exists speech_world ''speech.wav''" "path_exists fallback_world ''speech.wav''"
    by (simp_all add: fallback_world_def speech_world_def)
  have r1: "main speech_world [''transcribe.py'', ''speech.wav''] =
     \<lparr>calls = [Import_faster_whisper, Call_WhisperModel ''base'' ''cpu'' ''int8'',
               Call_model_transcribe ''speech.wav'' (Some ''en'') 5 False True],
      stdout = [[(''success'', PyBool True), (''text'', PyStr ''Hello world.''),
                 (''language'', PyStr ''en''), (''duration'', PyFloat 3.2)]],
      ended = Exit 0\<rparr>"
    using main_arguments_and_status [of "[''transcribe.py'', ''speech.wav'']" speech_world]
      exists speech [of "''en''"]
    by (simp add: run.equality)
  have r2: "main fallback_world [''transcribe.py'', ''speech.wav''] =
     \<lparr>calls = [Import_faster_whisper, Import_whisper, Call_load_model ''base'',
               Call_whisper_transcribe ''speech.wav'' ''en''],
      stdout = [[(''success'', PyBool False),
                 (''error'', PyStr ''Whisper not available: Failed to load audio''),
                 (''text'', PyStr [])]],
      ended = Exit 0\<rparr>"
    using main_arguments_and_status [of "[''transcribe.py'', ''speech.wav'']" fallback_world]
      exists fallback
    by (simp add: run.equality)
  have r3: "main speech_world [''transcribe.py'', ''speech.wav'', ''fr'', ''extra''] =
              main speech_world [''transcribe.py'', ''speech.wav'', ''fr'']"
    and r4: "calls (main speech_world [''transcribe.py'', ''speech.wav'', ''fr'', ''extra'']) =
     [Import_faster_whisper, Call_WhisperModel ''base'' ''cpu'' ''int8'',
      Call_model_transcribe ''speech.wav'' (Some ''fr'') 5 False True]"
    using main_arguments_and_status
        [of "[''transcribe.py'', ''speech.wav'', ''fr'', ''extra'']" speech_world]
      exists speech [of "''fr''"]
    by auto
  have r0: "main speech_world [''transcribe.py''] =
     \<lparr>calls = [],
      stdout = [[(''success'', PyBool False),
                 (''error'', PyStr ''Usage: transcribe.py <audio_file> [language]'')]],
      ended = Exit 1\<rparr>"
    using main_arguments_and_status [of "[''transcribe.py'']" speech_world] by simp
  show ?thesis
    using r0 r1 r2 r3 r4 exists by simp
qed

text \<open>
  Claim C7, as the specification states it, for the usage error: the object the
  process prints has the keys \<open>success\<close> and \<open>error\<close> and no \<open>text\<close>, so it
  is not a TranscriptionResult as section 3 describes one.
\<close>

theorem main_usage_object_has_no_text:
  "main speech_world [''transcribe.py''] =
     \<lparr>calls = [],
      stdout = [[(''success'', PyBool False),
                 (''error'', PyStr ''Usage: transcribe.py <audio_file> [language]'')]],
      ended = Exit 1\<rparr> \<and>
   map_of [(''success'', PyBool False),
           (''error'', PyStr ''Usage: transcribe.py <audio_file> [language]'')
             :: string \<times> real pyval] ''text'' = None \<and>
   \<not> TranscriptionResult
        [(''success'', PyBool False),
         (''error'', PyStr ''Usage: transcribe.py <audio_file> [language]'')
           :: string \<times> real pyval]"
  by (simp add: main_def TranscriptionResult_def)

text \<open>
  Claim C7, amended. Every run of the process that ends with an exit status (usage
  error, file not found, \<^verbatim>\<open>transcribe\<close> returning a success or a failure) has
  printed exactly one line, an object whose fields are fields of TranscriptionResult,
  \<open>success\<close> among them. When the status is 0, the object is the one
  \<^verbatim>\<open>transcribe\<close> returned and it is a TranscriptionResult: \<open>text\<close> is present, and
  is the empty string on failure. When the status is 1, the object is the usage or the
  file-not-found error and has the two keys \<open>success\<close> and \<open>error\<close>, without
  \<open>text\<close>.
\<close>

theorem main_prints_one_object:
  assumes "ended (main w argv) = Exit n"
  shows "\<exists>d. stdout (main w argv) = [d] \<and> known_fields d \<and>
             (if n = 0 then TranscriptionResult d
              else map fst d = [''success'', ''error''])"
proof (cases "length argv < 2")
  case True
  then show ?thesis using assms by (auto simp: main_def known_fields_def)
next
  case False
  note args = this
  show ?thesis
  proof (cases "path_exists w (argv ! 1)")
    case False
    with args show ?thesis using assms by (auto simp: main_def Let_def known_fields_def)
  next
    case True
    obtain cs r where tr:
      "transcribe w (argv ! 1) (if length argv > 2 then argv ! 2 else ''en'') = (cs, r)"
      by (cases "transcribe w (argv ! 1) (if length argv > 2 then argv ! 2 else ''en'')")
    show ?thesis
    proof (cases r)
      case (Inl e)
      with tr args True assms show ?thesis by (simp add: main_def Let_def)
    next
      case (Inr d)
      with tr have "TranscriptionResult d" by (simp add: transcribe_result_shape)
      moreover have "stdout (main w argv) = [d]" and "n = 0"
        using tr args True assms Inr by (simp_all add: main_def Let_def)
      ultimately show ?thesis by (simp add: TranscriptionResult_def)
    qed
  qed
qed

theorem main_prints_one_object_witness:
  "ended (main speech_world [''transcribe.py'', ''speech.wav'']) = Exit 0 \<and>
   ended (main speech_world [''transcribe.py'', ''missing.wav'']) = Exit 1 \<and>
   (\<exists>d. stdout (main speech_world [''transcribe.py'', ''speech.wav'']) = [d] \<and>
        TranscriptionResult d) \<and>
   (\<exists>d. stdout (main speech_world [''transcribe.py'', ''missing.wav'']) = [d] \<and>
        map fst d = [''success'', ''error''])"
proof -
  have e0: "ended (main speech_world [''transcribe.py'', ''speech.wav'']) = Exit 0"
    by (simp add: main_def speech_world_def transcribe_def faster_whisper_body_def
          probe_mps_cpu_int8 environ_get_def)
  have e1: "ended (main speech_world [''transcribe.py'', ''missing.wav'']) = Exit 1"
    by (simp add: main_def speech_world_def)
  show ?thesis
    using main_prints_one_object [OF e0] main_prints_one_object [OF e1] e0 e1 by auto
qed

end
